theory Spec2Isabelle
  imports Complex_Main "HOL-Library.Log_Nat"
begin

section \<open>JavaScript numbers\<close>

text \<open>
  Every amount of the ledger is a JavaScript \<open>Number\<close>, an IEEE-754 binary64 value.
  A finite double is modelled by the rational it denotes, and each arithmetic operator
  by the exact operation followed by rounding to the nearest value with a 53-bit
  significand, ties to even (\<open>rnd\<close>). The exponent range is not bounded: overflow to
  \<open>Infinity\<close>, subnormals, \<open>NaN\<close> and the sign of zero are outside the model.
\<close>

type_synonym number = rat

definition pow2 :: "int \<Rightarrow> rat" where
  "pow2 e = (if 0 \<le> e then 2 ^ nat e else 1 / 2 ^ nat (- e))"

text \<open>The floor of the binary logarithm of a positive rational.\<close>

definition ilog2 :: "rat \<Rightarrow> int" where
  "ilog2 x = (if 1 \<le> x then bitlen \<lfloor>x\<rfloor> - 1 else - bitlen (\<lceil>1 / x\<rceil> - 1))"

definition round_half_even :: "rat \<Rightarrow> int" where
  "round_half_even s =
     (let f = \<lfloor>s\<rfloor>; d = s - of_int f
      in if d < 1 / 2 then f else if 1 / 2 < d then f + 1
         else if even f then f else f + 1)"

definition rnd :: "rat \<Rightarrow> number" where
  "rnd x = (if x = 0 then 0 else
     let e = ilog2 \<bar>x\<bar> - 52
     in sgn x * of_int (round_half_even (\<bar>x\<bar> / pow2 e)) * pow2 e)"

definition js_add :: "number \<Rightarrow> number \<Rightarrow> number" where
  "js_add a b = rnd (a + b)"

definition js_sub :: "number \<Rightarrow> number \<Rightarrow> number" where
  "js_sub a b = rnd (a - b)"

definition js_mul :: "number \<Rightarrow> number \<Rightarrow> number" where
  "js_mul a b = rnd (a * b)"


text \<open>\<open>Math.round\<close>: the nearest integer, a tie going towards plus infinity.\<close>

definition Math_round :: "number \<Rightarrow> int" where
  "Math_round x = \<lfloor>x + 1 / 2\<rfloor>"

text \<open>A string is truthy when it is not empty; an absent field is falsy.\<close>

fun truthy :: "string option \<Rightarrow> bool" where
  "truthy None = False"
| "truthy (Some s) = (s \<noteq> [])"

section \<open>Documents\<close>

text \<open>
  The collections of the document store, with the fields the ledger rules read or write.
  The address, phone, shipping address, delivery date and custom-dimension attributes
  of an order are copied from the request and never read again; they are left out.
  Object ids are drawn from a counter kept with the store.
\<close>

type_synonym objid = nat

record item =
  item_id :: objid
  price :: number
  is_customizable :: bool
  sales :: number

record order_line =
  line_id :: objid
  line_item :: objid
  quantity :: number
  line_price :: number

record order =
  order_id :: objid
  user :: objid
  items :: "order_line list"
  amount :: number
  totalWithShipping :: number
  downPayment :: number
  balance :: number
  paymentStatus :: string
  status :: string
  deliveryOption :: string
  shippingFee :: number
  transactionId :: "string option"
  transactionHash :: "string option"

record cart_line =
  cl_id :: objid
  cl_item :: objid
  cl_quantity :: number

record cart =
  cart_user :: objid
  cart_items :: "cart_line list"

record store =
  orders :: "order list"
  users :: "objid list"
  catalog :: "item list"
  carts :: "cart list"
  next_id :: objid

text \<open>
  The body of an order-creation request. A field the handler may find missing is an
  option; \<open>None\<close> is JavaScript's \<open>undefined\<close>.
\<close>

record req_line =
  rl_id :: "objid option"
  rl_item :: "objid option"
  rl_quantity :: "number option"
  rl_price :: "number option"

record order_request =
  req_items :: "req_line list option"
  req_amount :: "number option"
  req_totalWithShipping :: "number option"
  req_transactionHash :: "string option"
  req_deliveryOption :: "string option"
  req_shippingFee :: "number option"
  req_paymentType :: "string option"
  req_paidAmount :: "number option"

text \<open>
  What a handler answers. The failures are the HTTP statuses of the source:
  404 (\<open>NotFound\<close>), 403 (\<open>Unauthorized\<close>), 400 (\<open>InvalidState\<close>) and
  500 (\<open>ServerError\<close>, the \<open>catch\<close> block of a handler).
\<close>

datatype failure = NotFound | Unauthorized | InvalidState | ServerError

datatype response =
    Created order
  | Duplicate objid
  | CheckoutUrl string
  | OrderJson order
  | Failure failure

text \<open>The outcome of the call to the payment gateway, as the handler sees it.\<close>

datatype gateway_reply = GatewayFailed | SessionCreated string string

datatype webhook_event = CheckoutSessionCompleted string | OtherEvent string

section \<open>Document store operations\<close>

text \<open>\<open>Order.findById\<close> and \<open>populate("items.item")\<close>.\<close>

definition findById :: "store \<Rightarrow> objid \<Rightarrow> order option" where
  "findById st oid = find (\<lambda>d. order_id d = oid) (orders st)"

definition lookup_item :: "store \<Rightarrow> objid \<Rightarrow> item option" where
  "lookup_item st i = find (\<lambda>it. item_id it = i) (catalog st)"

text \<open>\<open>order.save()\<close> on a document read from the store: the document with its id is replaced.\<close>

fun save_order :: "order \<Rightarrow> order list \<Rightarrow> order list" where
  "save_order ord [] = []"
| "save_order ord (x # xs) =
     (if order_id x = order_id ord then ord # xs else x # save_order ord xs)"

text \<open>\<open>Cart.findOneAndUpdate({user}, {$pull: {items: {_id: {$in: ids}}}})\<close>.\<close>

fun pull_cart_lines :: "objid \<Rightarrow> objid list \<Rightarrow> cart list \<Rightarrow> cart list" where
  "pull_cart_lines u ids [] = []"
| "pull_cart_lines u ids (c # cs) =
     (if cart_user c = u
      then c\<lparr>cart_items := filter (\<lambda>l. cl_id l \<notin> set ids) (cart_items c)\<rparr> # cs
      else c # pull_cart_lines u ids cs)"

text \<open>\<open>Item.findByIdAndUpdate(id, {$inc: {sales: q}})\<close>.\<close>

fun inc_sales :: "objid \<Rightarrow> number \<Rightarrow> item list \<Rightarrow> item list" where
  "inc_sales i q [] = []"
| "inc_sales i q (it # its) =
     (if item_id it = i then it\<lparr>sales := js_add (sales it) q\<rparr> # its
      else it # inc_sales i q its)"

section \<open>Order creation: \<open>POST /api/orders\<close>\<close>

definition resolved_item :: "req_line \<Rightarrow> objid option" where
  "resolved_item l = (case rl_id l of Some i \<Rightarrow> Some i | None \<Rightarrow> rl_item l)"

text \<open>
  The payment branch of the handler: down payment, balance, payment status and initial
  status. \<open>None\<close> stands for \<open>undefined\<close> or \<open>NaN\<close>, which the schema rejects.
\<close>

definition initial_status :: "string option \<Rightarrow> string" where
  "initial_status deliv = (if deliv = Some ''pickup'' then ''Ready for Pickup'' else ''On Process'')"

definition payment_branch ::
  "bool \<Rightarrow> string \<Rightarrow> number option \<Rightarrow> number option \<Rightarrow> string option
     \<Rightarrow> number option \<times> number option \<times> string \<times> string" where
  "payment_branch hasCustomizableItems paymentType amt paidAmount deliv =
     (if hasCustomizableItems then
        (if paymentType = ''full_payment''
         then (amt, Some 0, ''Fully Paid'', initial_status deliv)
         else (paidAmount,
               (case (amt, paidAmount) of
                  (Some a, Some p) \<Rightarrow> Some (js_sub a p)
                | _ \<Rightarrow> None),
               ''Downpayment Received'', ''On Process''))
      else (amt, Some 0, ''Fully Paid'', initial_status deliv))"

text \<open>
  \<open>processedItems\<close> as the schema accepts them: every line needs its item, quantity and
  price. The subdocument ids are fresh.
\<close>

fun process_lines :: "objid \<Rightarrow> req_line list \<Rightarrow> order_line list option" where
  "process_lines n [] = Some []"
| "process_lines n (l # ls) =
     (case (resolved_item l, rl_quantity l, rl_price l, process_lines (Suc n) ls) of
        (Some i, Some q, Some p, Some rest) \<Rightarrow>
          Some (\<lparr>line_id = n, line_item = i, quantity = q, line_price = p\<rparr> # rest)
      | _ \<Rightarrow> None)"

definition valid_delivery :: "string option \<Rightarrow> bool" where
  "valid_delivery d = (d = Some ''shipping'' \<or> d = Some ''pickup'')"

text \<open>
  \<open>new Order(orderData)\<close> followed by \<open>save()\<close>: the document, when the schema of
  \<open>order.model.js\<close> accepts it (required fields present, numbers that are numbers,
  \<open>deliveryOption\<close> in its enumeration), and \<open>None\<close> when validation throws.
\<close>

definition new_order ::
  "store \<Rightarrow> objid \<Rightarrow> order_request \<Rightarrow> req_line list
     \<Rightarrow> number option \<times> number option \<times> string \<times> string \<Rightarrow> order option" where
  "new_order st userId req ls ledger =
     (case ledger of (dp, bal, pstatus, istatus) \<Rightarrow>
        (case (req_amount req, bal, req_deliveryOption req,
               process_lines (Suc (next_id st)) ls) of
           (Some a, Some b, Some d, Some lines) \<Rightarrow>
             (if valid_delivery (Some d) then
                Some \<lparr>order_id = next_id st, user = userId, items = lines, amount = a,
                      totalWithShipping =
                        (case req_totalWithShipping req of None \<Rightarrow> 0 | Some t \<Rightarrow> t),
                      downPayment = (case dp of None \<Rightarrow> 0 | Some v \<Rightarrow> v),
                      balance = b, paymentStatus = pstatus, status = istatus,
                      deliveryOption = d,
                      shippingFee = (case req_shippingFee req of None \<Rightarrow> 0 | Some f \<Rightarrow> f),
                      transactionId = None,
                      transactionHash = req_transactionHash req\<rparr>
              else None)
         | _ \<Rightarrow> None))"

definition has_customizable :: "store \<Rightarrow> req_line list \<Rightarrow> bool" where
  "has_customizable st ls =
     list_ex is_customizable
       (filter (\<lambda>it. Some (item_id it) \<in> set (map resolved_item ls)) (catalog st))"

definition find_duplicate :: "store \<Rightarrow> order_request \<Rightarrow> order option" where
  "find_duplicate st req =
     (if truthy (req_transactionHash req)
      then find (\<lambda>d. transactionHash d = req_transactionHash req) (orders st)
      else None)"

definition create_order :: "store \<Rightarrow> objid \<Rightarrow> order_request \<Rightarrow> response \<times> store" where
  "create_order st userId req =
     (case find_duplicate st req of
        Some existingOrderByHash \<Rightarrow> (Duplicate (order_id existingOrderByHash), st)
      | None \<Rightarrow>
          if userId \<notin> set (users st) then (Failure NotFound, st)
          else
            (case req_items req of
               None \<Rightarrow> (Failure ServerError, st)
             | Some ls \<Rightarrow>
                 let hasCustomizableItems = has_customizable st ls;
                     paymentType =
                       (case req_paymentType req of None \<Rightarrow> ''full_payment'' | Some t \<Rightarrow> t);
                     ledger = payment_branch hasCustomizableItems paymentType
                                (req_amount req) (req_paidAmount req) (req_deliveryOption req)
                 in (case new_order st userId req ls ledger of
                       None \<Rightarrow> (Failure ServerError, st)
                     | Some ord \<Rightarrow>
                         (Created ord,
                          st\<lparr>orders := orders st @ [ord],
                             next_id := Suc (next_id st) + length ls\<rparr>))))"

section \<open>The gateway webhook: \<open>POST /api/paymongo-webhook\<close>\<close>

definition record_sales :: "order_line list \<Rightarrow> item list \<Rightarrow> item list" where
  "record_sales ls its = foldl (\<lambda>acc l. inc_sales (line_item l) (quantity l) acc) its ls"

definition webhook :: "store \<Rightarrow> webhook_event \<Rightarrow> store" where
  "webhook st ev =
     (case ev of
        OtherEvent t \<Rightarrow> st
      | CheckoutSessionCompleted sessionId \<Rightarrow>
          (case find (\<lambda>d. transactionId d = Some sessionId) (orders st) of
             None \<Rightarrow> st
           | Some ord \<Rightarrow>
               st\<lparr>orders := save_order (ord\<lparr>status := ''On Process''\<rparr>) (orders st),
                  carts := pull_cart_lines (user ord) (map line_id (items ord)) (carts st),
                  catalog := record_sales (items ord) (catalog st)\<rparr>))"

section \<open>Cancellation: \<open>PUT /api/orders/:id/cancel\<close>\<close>

text \<open>
  \<open>findByIdAndUpdate\<close> writes the status first (update validators are off unless asked
  for); the ownership test comes after it.
\<close>

definition cancel_order :: "store \<Rightarrow> objid \<Rightarrow> objid \<Rightarrow> response \<times> store" where
  "cancel_order st userId oid =
     (case findById st oid of
        None \<Rightarrow> (Failure NotFound, st)
      | Some found \<Rightarrow>
          let ord = found\<lparr>status := ''cancelled''\<rparr>;
              st' = st\<lparr>orders := save_order ord (orders st)\<rparr>
          in if user ord \<noteq> userId then (Failure Unauthorized, st')
             else (OrderJson ord, st'))"

section \<open>Settlement: \<open>POST /api/orders/:id/complete-payment\<close>\<close>

definition complete_payment ::
  "store \<Rightarrow> objid \<Rightarrow> objid \<Rightarrow> gateway_reply \<Rightarrow> response \<times> store" where
  "complete_payment st userId oid gw =
     (case findById st oid of
        None \<Rightarrow> (Failure NotFound, st)
      | Some ord \<Rightarrow>
          if user ord \<noteq> userId then (Failure Unauthorized, st)
          else if list_ex (\<lambda>l. lookup_item st (line_item l) = None) (items ord)
          then (Failure ServerError, st)
          else
            let amountToPay = Math_round (js_mul (balance ord) 100)
            in if amountToPay \<le> 0 then (Failure InvalidState, st)
               else
                 (case gw of
                    GatewayFailed \<Rightarrow> (Failure ServerError, st)
                  | SessionCreated sid checkout_url \<Rightarrow>
                      (CheckoutUrl checkout_url,
                       st\<lparr>orders :=
                            save_order
                              (ord\<lparr>transactionHash := Some sid,
                                   paymentStatus := ''Fully Paid'',
                                   balance := 0,
                                   downPayment := totalWithShipping ord\<rparr>)
                              (orders st)\<rparr>)))"

section \<open>Refund request: \<open>PUT /api/orders/:id/request-refund\<close>\<close>

definition hasCustomizedItems :: "store \<Rightarrow> order \<Rightarrow> bool" where
  "hasCustomizedItems st ord =
     list_ex (\<lambda>l. case lookup_item st (line_item l) of
                     None \<Rightarrow> False
                   | Some it \<Rightarrow> is_customizable it) (items ord)"

definition request_refund :: "store \<Rightarrow> objid \<Rightarrow> objid \<Rightarrow> response \<times> store" where
  "request_refund st userId oid =
     (case findById st oid of
        None \<Rightarrow> (Failure NotFound, st)
      | Some ord \<Rightarrow>
          if user ord \<noteq> userId then (Failure Unauthorized, st)
          else if status ord \<noteq> ''On Process'' then (Failure InvalidState, st)
          else if hasCustomizedItems st ord then (Failure InvalidState, st)
          else
            let ord' = ord\<lparr>status := ''Requesting for Refund'',
                           paymentStatus := ''Refund Requested''\<rparr>
            in (OrderJson ord', st\<lparr>orders := save_order ord' (orders st)\<rparr>))"

section \<open>Admin status update: \<open>PUT /api/orders/:id/status\<close>\<close>

definition admin_set_status :: "store \<Rightarrow> string option \<Rightarrow> objid \<Rightarrow> response \<times> store" where
  "admin_set_status st new_status oid =
     (if \<not> truthy new_status then (Failure InvalidState, st)
      else
        (case (findById st oid, new_status) of
           (Some found, Some s) \<Rightarrow>
             (let ord = found\<lparr>status := s\<rparr>
              in (OrderJson ord, st\<lparr>orders := save_order ord (orders st)\<rparr>))
         | _ \<Rightarrow> (Failure NotFound, st)))"

section \<open>The payment plan of the checkout page: \<open>calculatePaymentAmounts\<close>\<close>





section \<open>Ledger observations\<close>





text \<open>An order line without its subdocument id; the total of a cart line.\<close>

definition line_content :: "order_line \<Rightarrow> objid \<times> number \<times> number" where
  "line_content l = (line_item l, quantity l, line_price l)"


text \<open>
  The document store keeps \<open>_id\<close> unique; in the model every id in use lies below the
  counter.
\<close>

definition wf_store :: "store \<Rightarrow> bool" where
  "wf_store st = (distinct (map order_id (orders st))
                  \<and> list_all (\<lambda>i. i < next_id st) (map order_id (orders st)))"

section \<open>A shop to run the handlers on\<close>

text \<open>
  Two users, a made-to-order table at 10000, a chair at 500 and a shelf at 1000;
  user 1 has the table and the chair in the cart.
\<close>

definition shop :: store where
  "shop = \<lparr>orders = [], users = [1, 2],
          catalog = [\<lparr>item_id = 100, price = 10000, is_customizable = True, sales = 0\<rparr>,
                     \<lparr>item_id = 101, price = 500, is_customizable = False, sales = 4\<rparr>,
                     \<lparr>item_id = 102, price = 1000, is_customizable = False, sales = 0\<rparr>],
          carts = [\<lparr>cart_user = 1,
                    cart_items = [\<lparr>cl_id = 7, cl_item = 100, cl_quantity = 1\<rparr>,
                                  \<lparr>cl_id = 8, cl_item = 101, cl_quantity = 1\<rparr>]\<rparr>],
          next_id = 10\<rparr>"

text \<open>Scenario B of the specification: table and chair, paid by down payment, picked up.\<close>

definition checkout_B :: order_request where
  "checkout_B = \<lparr>req_items = Some [\<lparr>rl_id = None, rl_item = Some 100,
                                     rl_quantity = Some 1, rl_price = Some 10000\<rparr>,
                                    \<lparr>rl_id = None, rl_item = Some 101,
                                     rl_quantity = Some 1, rl_price = Some 500\<rparr>],
                 req_amount = Some 10500, req_totalWithShipping = Some 10500,
                 req_transactionHash = Some ''1-1'', req_deliveryOption = Some ''pickup'',
                 req_shippingFee = Some 0, req_paymentType = Some ''down_payment'',
                 req_paidAmount = Some 3500\<rparr>"

definition order_B :: order where
  "order_B = \<lparr>order_id = 10, user = 1,
              items = [\<lparr>line_id = 11, line_item = 100, quantity = 1, line_price = 10000\<rparr>,
                       \<lparr>line_id = 12, line_item = 101, quantity = 1, line_price = 500\<rparr>],
              amount = 10500, totalWithShipping = 10500, downPayment = 3500, balance = 7000,
              paymentStatus = ''Downpayment Received'', status = ''On Process'',
              deliveryOption = ''pickup'', shippingFee = 0, transactionId = None,
              transactionHash = Some ''1-1''\<rparr>"

definition shop_B :: store where
  "shop_B = shop\<lparr>orders := [order_B], next_id := 13\<rparr>"



definition settled_B :: order where
  "settled_B = order_B\<lparr>transactionHash := Some ''cs_2'', paymentStatus := ''Fully Paid'',
                       balance := 0, downPayment := 10500\<rparr>"




text \<open>The checkout of scenario B sent with an empty \<open>transactionHash\<close>, twice.\<close>

definition checkout_N :: order_request where
  "checkout_N = checkout_B\<lparr>req_transactionHash := Some []\<rparr>"

definition order_N1 :: order where
  "order_N1 = order_B\<lparr>transactionHash := Some []\<rparr>"

definition order_N2 :: order where
  "order_N2 = order_N1\<lparr>order_id := 13,
       items := [\<lparr>line_id = 14, line_item = 100, quantity = 1, line_price = 10000\<rparr>,
                 \<lparr>line_id = 15, line_item = 101, quantity = 1, line_price = 500\<rparr>]\<rparr>"



section \<open>Facts about rounding\<close>

lemma pow2_pos: "0 < pow2 e"
  by (simp add: pow2_def)

lemma round_half_even_nonneg: "0 \<le> s \<Longrightarrow> 0 \<le> round_half_even s"
  by (auto simp: round_half_even_def Let_def)

lemma rnd_mantissa_nonneg: "0 \<le> round_half_even (\<bar>x\<bar> / pow2 e)"
  by (rule round_half_even_nonneg) (simp add: pow2_pos less_imp_le)


lemma rnd_nonpos: "x \<le> 0 \<Longrightarrow> rnd x \<le> 0"
  using rnd_mantissa_nonneg [of x "ilog2 \<bar>x\<bar> - 52"] pow2_pos [of "ilog2 \<bar>x\<bar> - 52"]
  by (simp add: rnd_def Let_def sgn_if less_imp_le mult_le_0_iff zero_le_mult_iff)


text \<open>An order whose balance is not positive has nothing to pay.\<close>

lemma amountToPay_nonpos: "b \<le> 0 \<Longrightarrow> Math_round (js_mul b 100) \<le> 0"
proof -
  assume "b \<le> 0"
  then have "b * 100 \<le> 0" by simp
  then have "js_mul b 100 \<le> 0" unfolding js_mul_def by (rule rnd_nonpos)
  then have "js_mul b 100 + 1 / 2 < 1" by simp
  then show ?thesis unfolding Math_round_def by (simp add: floor_le_iff)
qed

















section \<open>Facts about the document store\<close>



lemma find_Some_id: "find (\<lambda>d. order_id d = oid) xs = Some ord \<Longrightarrow> order_id ord = oid"
  by (induction xs) (auto split: if_splits)

lemma find_save_order:
  "find (\<lambda>d. order_id d = oid) xs = Some ord \<Longrightarrow> order_id ord' = oid
     \<Longrightarrow> find (\<lambda>d. order_id d = oid) (save_order ord' xs) = Some ord'"
  by (induction xs) (auto split: if_splits)




lemma save_order_ids: "map order_id (save_order ord xs) = map order_id xs"
  by (induction xs) auto




section \<open>Facts about the handlers\<close>


lemma new_order_fields:
  assumes "new_order st userId req ls (dp, bal, ps, s) = Some ord"
  shows "\<exists>a b. req_amount req = Some a \<and> bal = Some b \<and> amount ord = a \<and> balance ord = b
           \<and> downPayment ord = (case dp of None \<Rightarrow> 0 | Some v \<Rightarrow> v)
           \<and> paymentStatus ord = ps \<and> status ord = s \<and> order_id ord = next_id st
           \<and> user ord = userId
           \<and> transactionHash ord = req_transactionHash req
           \<and> totalWithShipping ord = (case req_totalWithShipping req of None \<Rightarrow> 0 | Some t \<Rightarrow> t)"
proof -
  from assms obtain a b d lines where
    "req_amount req = Some a" "bal = Some b" "req_deliveryOption req = Some d"
    "process_lines (Suc (next_id st)) ls = Some lines"
    by (simp add: new_order_def split: option.splits)
  with assms show ?thesis
    by (simp add: new_order_def split: if_splits) auto
qed

lemma create_order_Created:
  assumes "create_order st userId req = (Created ord, st')"
  shows "\<exists>ls. req_items req = Some ls \<and> find_duplicate st req = None \<and> userId \<in> set (users st)
           \<and> new_order st userId req ls
                (payment_branch (has_customizable st ls)
                   (case req_paymentType req of None \<Rightarrow> ''full_payment'' | Some t \<Rightarrow> t)
                   (req_amount req) (req_paidAmount req) (req_deliveryOption req)) = Some ord
           \<and> st' = st\<lparr>orders := orders st @ [ord], next_id := Suc (next_id st) + length ls\<rparr>"
proof -
  from assms have d: "find_duplicate st req = None"
    by (simp add: create_order_def split: option.splits)
  with assms have u: "userId \<in> set (users st)"
    by (simp add: create_order_def split: if_splits)
  with assms d obtain ls where l: "req_items req = Some ls"
    by (simp add: create_order_def split: option.splits)
  with assms d u show ?thesis
    by (simp add: create_order_def Let_def split: option.splits)
qed

lemma create_order_Duplicate:
  assumes "create_order st userId req = (Duplicate i, st')"
  shows "st' = st \<and> (\<exists>ex. find_duplicate st req = Some ex \<and> order_id ex = i)"
proof (cases "find_duplicate st req")
  case None
  with assms show ?thesis
    by (auto simp: create_order_def Let_def split: if_splits option.splits)
next
  case (Some ex)
  with assms show ?thesis by (simp add: create_order_def)
qed


lemma create_order_no_hash:
  assumes "\<not> truthy (req_transactionHash req)"
  shows "create_order st userId req =
     (if userId \<notin> set (users st) then (Failure NotFound, st)
      else case req_items req of
             None \<Rightarrow> (Failure ServerError, st)
           | Some ls \<Rightarrow>
               (case new_order st userId req ls
                       (payment_branch (has_customizable st ls)
                          (case req_paymentType req of None \<Rightarrow> ''full_payment'' | Some t \<Rightarrow> t)
                          (req_amount req) (req_paidAmount req) (req_deliveryOption req)) of
                  None \<Rightarrow> (Failure ServerError, st)
                | Some ord \<Rightarrow>
                    (Created ord,
                     st\<lparr>orders := orders st @ [ord],
                        next_id := Suc (next_id st) + length ls\<rparr>)))"
  using assms
  by (cases "req_items req") (simp_all add: create_order_def find_duplicate_def Let_def)



lemma has_customizable_catalog:
  "catalog st1 = catalog st \<Longrightarrow> has_customizable st1 ls = has_customizable st ls"
  by (simp add: has_customizable_def)

lemma new_order_orders:
  "new_order (st\<lparr>orders := os\<rparr>) userId req ls ledger = new_order st userId req ls ledger"
  by (simp add: new_order_def split: prod.splits option.splits)

lemma process_lines_shift:
  "process_lines n ls = Some lines \<Longrightarrow>
     \<exists>lines'. process_lines m ls = Some lines'
              \<and> map line_content lines' = map line_content lines"
proof (induction ls arbitrary: n m lines)
  case Nil
  then show ?case by simp
next
  case (Cons l ls)
  from Cons.prems obtain i q p rest where
    r: "resolved_item l = Some i" "rl_quantity l = Some q" "rl_price l = Some p"
       "process_lines (Suc n) ls = Some rest"
       "lines = \<lparr>line_id = n, line_item = i, quantity = q, line_price = p\<rparr> # rest"
    by (auto split: option.splits)
  from Cons.IH [OF r(4), of "Suc m"] obtain rest' where
    "process_lines (Suc m) ls = Some rest'" "map line_content rest' = map line_content rest"
    by blast
  with r show ?case by (simp add: line_content_def [abs_def])
qed

lemma new_order_again:
  assumes "new_order st userId req ls ledger = Some ord"
    and "users st1 = users st" "catalog st1 = catalog st"
  shows "\<exists>ord2. new_order st1 userId req ls ledger = Some ord2
           \<and> order_id ord2 = next_id st1
           \<and> ord2\<lparr>order_id := order_id ord, items := items ord\<rparr> = ord
           \<and> map line_content (items ord2) = map line_content (items ord)"
proof -
  obtain dp bal ps s where l: "ledger = (dp, bal, ps, s)" by (cases ledger) auto
  from assms(1) obtain a b d lines where
    f: "req_amount req = Some a" "bal = Some b" "req_deliveryOption req = Some d"
       "process_lines (Suc (next_id st)) ls = Some lines"
    by (auto simp: new_order_def l split: option.splits)
  from assms(1) f have v: "valid_delivery (Some d)"
    by (simp add: new_order_def l split: if_splits)
  from process_lines_shift [OF f(4), of "Suc (next_id st1)"] obtain lines' where
    p: "process_lines (Suc (next_id st1)) ls = Some lines'"
       "map line_content lines' = map line_content lines"
    by blast
  from assms(1) f v have o: "ord = \<lparr>order_id = next_id st, user = userId, items = lines, amount = a,
                      totalWithShipping =
                        (case req_totalWithShipping req of None \<Rightarrow> 0 | Some t \<Rightarrow> t),
                      downPayment = (case dp of None \<Rightarrow> 0 | Some v \<Rightarrow> v),
                      balance = b, paymentStatus = ps, status = s,
                      deliveryOption = d,
                      shippingFee = (case req_shippingFee req of None \<Rightarrow> 0 | Some f \<Rightarrow> f),
                      transactionId = None,
                      transactionHash = req_transactionHash req\<rparr>"
    by (simp add: new_order_def l)
  from f v p o show ?thesis by (simp add: new_order_def l)
qed

text \<open>Settlement and the webhook.\<close>

lemma complete_payment_success:
  assumes "complete_payment st userId oid gw = (CheckoutUrl url, st')"
  shows "\<exists>before sid. findById st oid = Some before \<and> gw = SessionCreated sid url
           \<and> findById st' oid =
               Some (before\<lparr>transactionHash := Some sid, paymentStatus := ''Fully Paid'',
                            balance := 0, downPayment := totalWithShipping before\<rparr>)"
proof -
  from assms obtain before where b: "findById st oid = Some before"
    by (auto simp: complete_payment_def split: option.splits)
  from assms b obtain sid where g: "gw = SessionCreated sid url"
    and st': "st' = st\<lparr>orders := save_order
                 (before\<lparr>transactionHash := Some sid, paymentStatus := ''Fully Paid'',
                         balance := 0, downPayment := totalWithShipping before\<rparr>) (orders st)\<rparr>"
    by (auto simp: complete_payment_def Let_def split: if_splits gateway_reply.splits)
  from b have "order_id before = oid" unfolding findById_def by (rule find_Some_id)
  with b st' have "findById st' oid =
        Some (before\<lparr>transactionHash := Some sid, paymentStatus := ''Fully Paid'',
                     balance := 0, downPayment := totalWithShipping before\<rparr>)"
    unfolding findById_def by (simp add: find_save_order)
  with b g show ?thesis by blast
qed

lemma complete_payment_failure:
  "complete_payment st userId oid gw = (Failure e, st') \<Longrightarrow> st' = st"
  by (auto simp: complete_payment_def Let_def split: option.splits if_splits gateway_reply.splits)



text \<open>Unique ids below the counter are an invariant of the handlers that write orders.\<close>

lemma wf_store_save:
  "wf_store st \<Longrightarrow> wf_store (st\<lparr>orders := save_order ord (orders st)\<rparr>)"
  by (simp add: wf_store_def save_order_ids)

lemma wf_store_create_order:
  assumes "wf_store st" "create_order st userId req = (answer, st')"
  shows "wf_store st'"
proof (cases answer)
  case (Created ord)
  from create_order_Created [OF assms(2) [unfolded Created]] obtain ls where
    n: "new_order st userId req ls
          (payment_branch (has_customizable st ls)
             (case req_paymentType req of None \<Rightarrow> ''full_payment'' | Some t \<Rightarrow> t)
             (req_amount req) (req_paidAmount req) (req_deliveryOption req)) = Some ord"
    and s: "st' = st\<lparr>orders := orders st @ [ord], next_id := Suc (next_id st) + length ls\<rparr>"
    by blast
  obtain dp bal ps s where "payment_branch (has_customizable st ls)
             (case req_paymentType req of None \<Rightarrow> ''full_payment'' | Some t \<Rightarrow> t)
             (req_amount req) (req_paidAmount req) (req_deliveryOption req) = (dp, bal, ps, s)"
    by (cases "payment_branch (has_customizable st ls)
             (case req_paymentType req of None \<Rightarrow> ''full_payment'' | Some t \<Rightarrow> t)
             (req_amount req) (req_paidAmount req) (req_deliveryOption req)") auto
  with new_order_fields [of st userId req ls dp bal ps s ord] n
  have i: "order_id ord = next_id st" by auto
  from assms(1) have "\<forall>d\<in>set (orders st). order_id d < next_id st"
    by (simp add: wf_store_def list_all_iff)
  with assms(1) i s show ?thesis
    by (fastforce simp: wf_store_def list_all_iff)
next
  case (Duplicate j)
  with create_order_Duplicate [of st userId req j st'] assms show ?thesis by simp
next
  case (CheckoutUrl x)
  with assms(2) show ?thesis
    by (auto simp: create_order_def Let_def split: option.splits if_splits)
next
  case (OrderJson x)
  with assms(2) show ?thesis
    by (auto simp: create_order_def Let_def split: option.splits if_splits)
next
  case (Failure x)
  with assms show ?thesis
    by (auto simp: create_order_def Let_def split: option.splits if_splits)
qed

lemma wf_store_webhook: "wf_store st \<Longrightarrow> wf_store (webhook st ev)"
proof -
  assume w: "wf_store st"
  have k: "wf_store (s\<lparr>carts := c, catalog := k\<rparr>) = wf_store s" for s c k
    by (simp add: wf_store_def)
  show ?thesis
  proof (cases ev)
    case (CheckoutSessionCompleted sid)
    with w k wf_store_save [OF w] show ?thesis
      by (cases "find (\<lambda>d. transactionId d = Some sid) (orders st)") (simp_all add: webhook_def)
  next
    case (OtherEvent t)
    with w show ?thesis by (simp add: webhook_def)
  qed
qed

lemma wf_store_complete_payment:
  "wf_store st \<Longrightarrow> complete_payment st userId oid gw = (answer, st') \<Longrightarrow> wf_store st'"
  using wf_store_save [of st]
  by (auto simp: complete_payment_def Let_def split: option.splits if_splits gateway_reply.splits)

lemma wf_store_shop: "wf_store shop"
  by (simp add: wf_store_def shop_def)

lemma wf_store_distinct: "wf_store st \<Longrightarrow> distinct (map order_id (orders st))"
  by (simp add: wf_store_def)








text \<open>The example shop and carts, evaluated.\<close>

lemma create_B: "create_order shop 1 checkout_B = (Created order_B, shop_B)"
  by code_simp






section \<open>The ledger invariant\<close>




section \<open>Order creation with a down payment\<close>



section \<open>Settlement of the remaining balance\<close>

text \<open>
  Claim C3. A complete-remaining-payment request by someone who does not own the order,
  or for an order whose balance is not strictly positive, fails with an error and leaves
  the store as it was. When the request succeeds, the order afterwards has balance 0,
  a down payment equal to \<open>totalWithShipping\<close>, payment status \<open>Fully Paid\<close>, and the
  id of the new gateway session as its \<open>transactionHash\<close>.
\<close>

theorem complete_payment_guards_and_settlement:
  "(findById st oid = Some ord \<and> (user ord \<noteq> userId \<or> balance ord \<le> 0)
      \<longrightarrow> (\<exists>e. complete_payment st userId oid gw = (Failure e, st)))
   \<and> (complete_payment st userId oid gw = (CheckoutUrl url, st')
      \<longrightarrow> (\<exists>before sid. findById st oid = Some before \<and> gw = SessionCreated sid url
             \<and> findById st' oid =
                 Some (before\<lparr>transactionHash := Some sid, paymentStatus := ''Fully Paid'',
                              balance := 0, downPayment := totalWithShipping before\<rparr>)))"
proof (intro conjI impI)
  assume a: "findById st oid = Some ord \<and> (user ord \<noteq> userId \<or> balance ord \<le> 0)"
  then show "\<exists>e. complete_payment st userId oid gw = (Failure e, st)"
    using amountToPay_nonpos [of "balance ord"]
    by (auto simp: complete_payment_def Let_def)
next
  assume "complete_payment st userId oid gw = (CheckoutUrl url, st')"
  then show "\<exists>before sid. findById st oid = Some before \<and> gw = SessionCreated sid url
             \<and> findById st' oid =
                 Some (before\<lparr>transactionHash := Some sid, paymentStatus := ''Fully Paid'',
                              balance := 0, downPayment := totalWithShipping before\<rparr>)"
    by (rule complete_payment_success)
qed

theorem complete_payment_witness:
  "(\<exists>e. complete_payment shop_B 2 10 (SessionCreated ''cs_2'' ''pay'') = (Failure e, shop_B))
   \<and> complete_payment shop_B 1 10 (SessionCreated ''cs_2'' ''pay'')
       = (CheckoutUrl ''pay'', shop_B\<lparr>orders := [settled_B]\<rparr>)
   \<and> (\<exists>before sid. findById shop_B 10 = Some before
        \<and> findById (shop_B\<lparr>orders := [settled_B]\<rparr>) 10 =
            Some (before\<lparr>transactionHash := Some sid, paymentStatus := ''Fully Paid'',
                         balance := 0, downPayment := totalWithShipping before\<rparr>))"
proof -
  have h1: "findById shop_B 10 = Some order_B \<and> (user order_B \<noteq> 2 \<or> balance order_B \<le> 0)"
    by code_simp
  have h2: "complete_payment shop_B 1 10 (SessionCreated ''cs_2'' ''pay'')
              = (CheckoutUrl ''pay'', shop_B\<lparr>orders := [settled_B]\<rparr>)"
    by code_simp
  from h1 complete_payment_guards_and_settlement
         [of shop_B 10 order_B 2 "SessionCreated ''cs_2'' ''pay''"]
  have a: "\<exists>e. complete_payment shop_B 2 10 (SessionCreated ''cs_2'' ''pay'') = (Failure e, shop_B)"
    by blast
  from h2 complete_payment_guards_and_settlement
         [of shop_B 10 order_B 1 "SessionCreated ''cs_2'' ''pay''" "''pay''"
             "shop_B\<lparr>orders := [settled_B]\<rparr>"]
  have b: "\<exists>before sid. findById shop_B 10 = Some before
        \<and> findById (shop_B\<lparr>orders := [settled_B]\<rparr>) 10 =
            Some (before\<lparr>transactionHash := Some sid, paymentStatus := ''Fully Paid'',
                         balance := 0, downPayment := totalWithShipping before\<rparr>)"
    by blast
  from a h2 b show ?thesis by blast
qed

section \<open>The ledger and the gateway\<close>




section \<open>The payment plan\<close>




section \<open>Duplicate submissions\<close>



section \<open>Refund requests on orders with customized lines\<close>

text \<open>
  Claim C7 says that a refund request on an order with a customizable line always fails
  with \<open>InvalidState\<close>, and that such an order never reaches the status
  \<open>Requesting for Refund\<close>. A request by someone who does not own the order is answered
  \<open>Unauthorized\<close> (403), and the admin status update, which has no guard, moves the
  order of scenario B to \<open>Requesting for Refund\<close>.
\<close>

theorem refund_with_customized_line_counterexample:
  "hasCustomizedItems shop_B order_B
   \<and> findById shop_B 10 = Some order_B
   \<and> request_refund shop_B 2 10 = (Failure Unauthorized, shop_B)
   \<and> map status (orders (snd (admin_set_status shop_B (Some ''Requesting for Refund'') 10)))
       = [''Requesting for Refund'']"
  by code_simp

text \<open>
  Claim C7, as the code has it. A refund request on an order with a line whose item is
  customizable fails and leaves the store unchanged, whatever the status of the order;
  the error is \<open>InvalidState\<close> (400) when the caller owns the order and \<open>Unauthorized\<close>
  (403) otherwise. So no refund request moves such an order to
  \<open>Requesting for Refund\<close>.
\<close>

theorem refund_with_customized_line_fails:
  "findById st oid = Some ord \<Longrightarrow> hasCustomizedItems st ord \<Longrightarrow>
     request_refund st userId oid
       = (Failure (if user ord = userId then InvalidState else Unauthorized), st)"
  by (simp add: request_refund_def)

theorem refund_with_customized_line_witness:
  "findById shop_B 10 = Some order_B \<and> hasCustomizedItems shop_B order_B
   \<and> status order_B = ''On Process''
   \<and> request_refund shop_B 1 10 = (Failure InvalidState, shop_B)"
proof -
  have h1: "findById shop_B 10 = Some order_B" by code_simp
  have h2: "hasCustomizedItems shop_B order_B" by code_simp
  have h3: "status order_B = ''On Process''" by code_simp
  have h4: "user order_B = 1" by code_simp
  from refund_with_customized_line_fails [OF h1 h2, of 1] h4
  have "request_refund shop_B 1 10 = (Failure InvalidState, shop_B)" by simp
  with h1 h2 h3 show ?thesis by blast
qed

section \<open>Cancellation\<close>

text \<open>
  Claim C8 says that a cancel request sets the status to \<open>Cancelled\<close> for the owner and
  answers \<open>Unauthorized\<close> without a change for anyone else. The handler writes the status
  before it looks at the owner, and the status it writes is \<open>cancelled\<close>, which the
  schema's enumeration does not know: user 2 cancelling the order of user 1 gets 403 and
  the order is changed all the same; user 1 gets an order whose status is not
  \<open>Cancelled\<close>.
\<close>

theorem cancel_writes_before_ownership_check:
  "cancel_order shop_B 2 10
     = (Failure Unauthorized, shop_B\<lparr>orders := [order_B\<lparr>status := ''cancelled''\<rparr>]\<rparr>)
   \<and> cancel_order shop_B 1 10
     = (OrderJson (order_B\<lparr>status := ''cancelled''\<rparr>),
        shop_B\<lparr>orders := [order_B\<lparr>status := ''cancelled''\<rparr>]\<rparr>)
   \<and> status (order_B\<lparr>status := ''cancelled''\<rparr>) \<noteq> ''Cancelled''
   \<and> shop_B\<lparr>orders := [order_B\<lparr>status := ''cancelled''\<rparr>]\<rparr> \<noteq> shop_B"
  by code_simp

section \<open>The \<open>checkout_session.completed\<close> webhook\<close>



section \<open>Submissions without a transaction hash\<close>

text \<open>
  Claim C10. For a request whose \<open>transactionHash\<close> is absent or empty the duplicate
  check is skipped: the handler never answers \<open>isDuplicate\<close> and its answer does not
  depend on the orders already stored. A submission that creates an order appends it to
  the store, and the same request submitted again creates one more order with the same
  contents under new ids.
\<close>

theorem no_hash_no_duplicate_check:
  assumes "\<not> truthy (req_transactionHash req)"
  shows "(\<forall>i. fst (create_order st userId req) \<noteq> Duplicate i)
         \<and> fst (create_order (st\<lparr>orders := os\<rparr>) userId req) = fst (create_order st userId req)
         \<and> (\<forall>ord st1. create_order st userId req = (Created ord, st1) \<longrightarrow>
               orders st1 = orders st @ [ord]
               \<and> (\<exists>ord2 st2. create_order st1 userId req = (Created ord2, st2)
                     \<and> orders st2 = orders st @ [ord, ord2]
                     \<and> order_id ord2 = next_id st1
                     \<and> ord2\<lparr>order_id := order_id ord, items := items ord\<rparr> = ord
                     \<and> map line_content (items ord2) = map line_content (items ord)))"
proof (intro conjI allI impI)
  fix i
  show "fst (create_order st userId req) \<noteq> Duplicate i"
    by (simp add: create_order_no_hash [OF assms] split: option.splits)
next
  show "fst (create_order (st\<lparr>orders := os\<rparr>) userId req) = fst (create_order st userId req)"
    by (simp add: create_order_no_hash [OF assms] new_order_orders
                  has_customizable_catalog [of "st\<lparr>orders := os\<rparr>" st]
             split: option.splits)
next
  fix ord st1
  assume c: "create_order st userId req = (Created ord, st1)"
  from create_order_Created [OF c] obtain ls where
    f: "req_items req = Some ls" "userId \<in> set (users st)"
       "new_order st userId req ls
          (payment_branch (has_customizable st ls)
             (case req_paymentType req of None \<Rightarrow> ''full_payment'' | Some t \<Rightarrow> t)
             (req_amount req) (req_paidAmount req) (req_deliveryOption req)) = Some ord"
       "st1 = st\<lparr>orders := orders st @ [ord], next_id := Suc (next_id st) + length ls\<rparr>"
    by blast
  from f(4) show "orders st1 = orders st @ [ord]" by simp
  from f(4) have u: "users st1 = users st" and k: "catalog st1 = catalog st" by simp_all
  from new_order_again [OF f(3) u k] obtain ord2 where
    n: "new_order st1 userId req ls
          (payment_branch (has_customizable st ls)
             (case req_paymentType req of None \<Rightarrow> ''full_payment'' | Some t \<Rightarrow> t)
             (req_amount req) (req_paidAmount req) (req_deliveryOption req)) = Some ord2"
       "order_id ord2 = next_id st1"
       "ord2\<lparr>order_id := order_id ord, items := items ord\<rparr> = ord"
       "map line_content (items ord2) = map line_content (items ord)"
    by blast
  from f(1,2) u n(1) have "create_order st1 userId req =
      (Created ord2, st1\<lparr>orders := orders st1 @ [ord2],
                          next_id := Suc (next_id st1) + length ls\<rparr>)"
    by (simp add: create_order_no_hash [OF assms] has_customizable_catalog [OF k])
  with f(4) n(2,3,4)
  show "\<exists>ord2 st2. create_order st1 userId req = (Created ord2, st2)
                     \<and> orders st2 = orders st @ [ord, ord2]
                     \<and> order_id ord2 = next_id st1
                     \<and> ord2\<lparr>order_id := order_id ord, items := items ord\<rparr> = ord
                     \<and> map line_content (items ord2) = map line_content (items ord)"
    by simp
qed

theorem no_hash_no_duplicate_check_witness:
  "\<not> truthy (req_transactionHash checkout_N)
   \<and> create_order shop 1 checkout_N = (Created order_N1, shop\<lparr>orders := [order_N1], next_id := 13\<rparr>)
   \<and> create_order (shop\<lparr>orders := [order_N1], next_id := 13\<rparr>) 1 checkout_N
       = (Created order_N2, shop\<lparr>orders := [order_N1, order_N2], next_id := 16\<rparr>)
   \<and> order_N2\<lparr>order_id := order_id order_N1, items := items order_N1\<rparr> = order_N1
   \<and> (\<exists>ord2 st2. create_order (shop\<lparr>orders := [order_N1], next_id := 13\<rparr>) 1 checkout_N
                      = (Created ord2, st2)
         \<and> orders st2 = orders shop @ [order_N1, ord2])"
proof -
  have h1: "\<not> truthy (req_transactionHash checkout_N)" by code_simp
  have h2: "create_order shop 1 checkout_N
              = (Created order_N1, shop\<lparr>orders := [order_N1], next_id := 13\<rparr>)" by code_simp
  have h3: "create_order (shop\<lparr>orders := [order_N1], next_id := 13\<rparr>) 1 checkout_N
       = (Created order_N2, shop\<lparr>orders := [order_N1, order_N2], next_id := 16\<rparr>)" by code_simp
  have h4: "order_N2\<lparr>order_id := order_id order_N1, items := items order_N1\<rparr> = order_N1"
    by code_simp
  from no_hash_no_duplicate_check [OF h1, of shop 1] h2
  have "\<exists>ord2 st2. create_order (shop\<lparr>orders := [order_N1], next_id := 13\<rparr>) 1 checkout_N
                      = (Created ord2, st2)
         \<and> orders st2 = orders shop @ [order_N1, ord2]" by blast
  with h1 h2 h3 h4 show ?thesis by blast
qed

end
